theory Spec2Isabelle
  imports Complex_Main "HOL-Library.Word"
begin

unbundle bit_operations_syntax

section \<open>Vulkan types used by the engine\<close>

text \<open>
  \<open>VkDeviceSize\<close> is \<open>uint64_t\<close>; \<open>uint32_t\<close> and \<open>int\<close> are 32 bits wide, \<open>size_t\<close>
  is 64 bits wide. Unsigned arithmetic wraps around; an \<open>int\<close> is a 32-bit word read
  with \<open>sint\<close>, and converting it to a 64-bit unsigned type sign-extends (\<open>scast\<close>).
  Vulkan handles are opaque; the model uses natural numbers, \<open>0\<close> being
  \<open>VK_NULL_HANDLE\<close>.
\<close>

type_synonym VkDeviceSize = "64 word"
type_synonym uint32_t = "32 word"
type_synonym c_int = "32 word"
type_synonym size_t = "64 word"
type_synonym byte = "8 word"
type_synonym VkBuffer = nat
type_synonym VkDeviceMemory = nat
type_synonym VkCommandBuffer = nat
type_synonym VkImage = nat
type_synonym VkFence = nat
type_synonym VkFormat = nat
type_synonym VkBufferUsageFlags = "32 word"
type_synonym VkMemoryPropertyFlags = "32 word"

text \<open>Host memory seen through a pointer: the byte at each offset from the pointer.\<close>

type_synonym bytes = "nat \<Rightarrow> byte"

text \<open>The Vulkan header's \<open>#define VK_WHOLE_SIZE (~0ULL)\<close>.\<close>

definition VK_WHOLE_SIZE :: VkDeviceSize where
  "VK_WHOLE_SIZE = NOT 0"

datatype VkResult =
    VK_SUCCESS
  | VK_SUBOPTIMAL_KHR
  | VK_ERROR_OUT_OF_DATE_KHR
  | VK_ERROR_DEVICE_LOST
  | VK_ERROR_MEMORY_MAP_FAILED
  | VK_ERROR_OUT_OF_HOST_MEMORY
  | VK_ERROR_OUT_OF_DEVICE_MEMORY

record VkMappedMemoryRange =
  mr_memory :: VkDeviceMemory
  mr_offset :: VkDeviceSize
  mr_size :: VkDeviceSize

record VkDescriptorBufferInfo =
  dbi_buffer :: VkBuffer
  dbi_offset :: VkDeviceSize
  dbi_range :: VkDeviceSize

record VkExtent2D =
  width :: uint32_t
  height :: uint32_t

text \<open>
  The calls the buffer makes into the Vulkan driver. The driver is outside the
  repository: a function of type \<open>driver\<close> gives the result of each call, and every call
  made is appended to a trace, so that what was asked of the driver can be observed.
\<close>

datatype vk_call =
    VkFlushMappedMemoryRanges VkMappedMemoryRange
  | VkInvalidateMappedMemoryRanges VkMappedMemoryRange
  | VkUnmapMemory VkDeviceMemory

type_synonym driver = "vk_call \<Rightarrow> VkResult"

text \<open>
  A failed \<open>assert\<close> aborts the program, an exception leaves the function, and indexing a
  \<open>std::vector\<close> out of range is undefined behaviour: each is an error value, never a
  result.
\<close>

datatype error =
    AssertionFailed string
  | RuntimeError string
  | UndefinedBehaviour

section \<open>\<open>LveBuffer\<close> (lve_buffer.hpp, lve_buffer.cpp)\<close>

text \<open>
  The member variables of the class, in the order of the header. The reference
  \<open>lveDevice\<close> is the parameter \<open>createBuffer\<close> of the constructor and the \<open>driver\<close> of
  the operations. \<open>mapped\<close> is \<open>None\<close> for \<open>nullptr\<close>, and otherwise holds the bytes of the
  mapped region, indexed from the mapped address.
\<close>

record LveBuffer =
  mapped :: "bytes option"
  buffer :: VkBuffer
  memory :: VkDeviceMemory
  bufferSize :: VkDeviceSize
  instanceCount :: uint32_t
  instanceSize :: VkDeviceSize
  alignmentSize :: VkDeviceSize
  usageFlags :: VkBufferUsageFlags
  memoryPropertyFlags :: VkMemoryPropertyFlags

text \<open>\<open>memcpy(dst + off, src, n)\<close>: the \<open>n\<close> bytes from \<open>off\<close> on are those of \<open>src\<close>.\<close>

definition memcpy :: "bytes \<Rightarrow> nat \<Rightarrow> bytes \<Rightarrow> nat \<Rightarrow> bytes" where
  "memcpy dst off src n = (\<lambda>a. if off \<le> a \<and> a < off + n then src (a - off) else dst a)"

definition getAlignment :: "VkDeviceSize \<Rightarrow> VkDeviceSize \<Rightarrow> VkDeviceSize" where
  "getAlignment instanceSize' minOffsetAlignment =
     (if minOffsetAlignment > 0
      then (instanceSize' + minOffsetAlignment - 1) AND NOT (minOffsetAlignment - 1)
      else instanceSize')"

text \<open>
  \<open>LveDevice::createBuffer\<close> is declared in lve_device.hpp and implemented outside the
  sources at hand: it is a parameter, which either fails with an exception or hands
  back the buffer and memory handles.
\<close>

type_synonym createBuffer_fn =
  "VkDeviceSize \<Rightarrow> VkBufferUsageFlags \<Rightarrow> VkMemoryPropertyFlags \<Rightarrow> error + (VkBuffer \<times> VkDeviceMemory)"

definition LveBuffer_ctor ::
  "createBuffer_fn \<Rightarrow> VkDeviceSize \<Rightarrow> uint32_t \<Rightarrow> VkBufferUsageFlags \<Rightarrow> VkMemoryPropertyFlags
     \<Rightarrow> VkDeviceSize \<Rightarrow> error + LveBuffer" where
  "LveBuffer_ctor createBuffer instanceSize' instanceCount' usageFlags' memoryPropertyFlags'
       minOffsetAlignment =
     (let alignmentSize' = getAlignment instanceSize' minOffsetAlignment;
          bufferSize' = alignmentSize' * ucast instanceCount'
      in case createBuffer bufferSize' usageFlags' memoryPropertyFlags' of
           Inl e \<Rightarrow> Inl e
         | Inr (buffer', memory') \<Rightarrow>
             Inr \<lparr> mapped = None, buffer = buffer', memory = memory',
                   bufferSize = bufferSize', instanceCount = instanceCount',
                   instanceSize = instanceSize', alignmentSize = alignmentSize',
                   usageFlags = usageFlags', memoryPropertyFlags = memoryPropertyFlags' \<rparr>)"

text \<open>
  \<open>vkMapMemory\<close> is the driver's: given the memory, offset and size it returns a status
  and the pointer it stored through \<open>&mapped\<close>.
\<close>

type_synonym vkMapMemory_fn =
  "VkDeviceMemory \<Rightarrow> VkDeviceSize \<Rightarrow> VkDeviceSize \<Rightarrow> VkResult \<times> bytes option"

definition map_buffer ::
  "vkMapMemory_fn \<Rightarrow> LveBuffer \<Rightarrow> VkDeviceSize \<Rightarrow> VkDeviceSize \<Rightarrow> error + (VkResult \<times> LveBuffer)" where
  "map_buffer vkMapMemory b size' offset =
     (if \<not> (buffer b \<noteq> 0 \<and> memory b \<noteq> 0)
      then Inl (AssertionFailed ''Called map on buffer before create'')
      else (case vkMapMemory (memory b) offset size' of
              (r, p) \<Rightarrow> Inr (r, b\<lparr>mapped := p\<rparr>)))"

definition unmap :: "LveBuffer \<Rightarrow> vk_call list \<Rightarrow> LveBuffer \<times> vk_call list" where
  "unmap b tr =
     (if mapped b \<noteq> None
      then (b\<lparr>mapped := None\<rparr>, tr @ [VkUnmapMemory (memory b)])
      else (b, tr))"

definition writeToBuffer ::
  "LveBuffer \<Rightarrow> bytes \<Rightarrow> VkDeviceSize \<Rightarrow> VkDeviceSize \<Rightarrow> error + LveBuffer" where
  "writeToBuffer b data size' offset =
     (case mapped b of
        None \<Rightarrow> Inl (AssertionFailed ''Cannot copy to unmapped buffer'')
      | Some m \<Rightarrow>
          if size' = VK_WHOLE_SIZE
          then Inr (b\<lparr>mapped := Some (memcpy m 0 data (unat (bufferSize b)))\<rparr>)
          else Inr (b\<lparr>mapped := Some (memcpy m (unat offset) data (unat size'))\<rparr>))"

definition flush ::
  "driver \<Rightarrow> LveBuffer \<Rightarrow> VkDeviceSize \<Rightarrow> VkDeviceSize \<Rightarrow> vk_call list \<Rightarrow> VkResult \<times> vk_call list" where
  "flush vk b size' offset tr =
     (let mappedRange = \<lparr> mr_memory = memory b, mr_offset = offset, mr_size = size' \<rparr>
      in (vk (VkFlushMappedMemoryRanges mappedRange),
          tr @ [VkFlushMappedMemoryRanges mappedRange]))"

definition invalidate ::
  "driver \<Rightarrow> LveBuffer \<Rightarrow> VkDeviceSize \<Rightarrow> VkDeviceSize \<Rightarrow> vk_call list \<Rightarrow> VkResult \<times> vk_call list" where
  "invalidate vk b size' offset tr =
     (let mappedRange = \<lparr> mr_memory = memory b, mr_offset = offset, mr_size = size' \<rparr>
      in (vk (VkInvalidateMappedMemoryRanges mappedRange),
          tr @ [VkInvalidateMappedMemoryRanges mappedRange]))"

definition descriptorInfo ::
  "LveBuffer \<Rightarrow> VkDeviceSize \<Rightarrow> VkDeviceSize \<Rightarrow> VkDescriptorBufferInfo" where
  "descriptorInfo b size' offset =
     \<lparr> dbi_buffer = buffer b, dbi_offset = offset, dbi_range = size' \<rparr>"

text \<open>
  The indexed operations take an \<open>int index\<close>; in \<open>index * alignmentSize\<close> the index is
  converted to \<open>uint64_t\<close> and the product wraps around.
\<close>

definition writeToIndex :: "LveBuffer \<Rightarrow> bytes \<Rightarrow> c_int \<Rightarrow> error + LveBuffer" where
  "writeToIndex b data index = writeToBuffer b data (instanceSize b) (scast index * alignmentSize b)"

definition flushIndex :: "driver \<Rightarrow> LveBuffer \<Rightarrow> c_int \<Rightarrow> vk_call list \<Rightarrow> VkResult \<times> vk_call list" where
  "flushIndex vk b index tr = flush vk b (alignmentSize b) (scast index * alignmentSize b) tr"

definition descriptorInfoForIndex :: "LveBuffer \<Rightarrow> c_int \<Rightarrow> VkDescriptorBufferInfo" where
  "descriptorInfoForIndex b index = descriptorInfo b (alignmentSize b) (scast index * alignmentSize b)"

definition invalidateIndex :: "driver \<Rightarrow> LveBuffer \<Rightarrow> c_int \<Rightarrow> vk_call list \<Rightarrow> VkResult \<times> vk_call list" where
  "invalidateIndex vk b index tr = invalidate vk b (alignmentSize b) (scast index * alignmentSize b) tr"

definition getInstanceCount :: "LveBuffer \<Rightarrow> uint32_t" where
  "getInstanceCount b = instanceCount b"

definition getInstanceSize :: "LveBuffer \<Rightarrow> VkDeviceSize" where
  "getInstanceSize b = instanceSize b"

definition getAlignmentSize :: "LveBuffer \<Rightarrow> VkDeviceSize" where
  "getAlignmentSize b = instanceSize b"

definition getBufferSize :: "LveBuffer \<Rightarrow> VkDeviceSize" where
  "getBufferSize b = bufferSize b"

text \<open>
  The spec's formula for the stride, in its own words:
  \<open>alignedInstanceSize = ceil(instanceSize / minOffsetAlignment) \<times> minOffsetAlignment\<close>,
  over the unbounded naturals. It is compared with \<open>getAlignment\<close> below.
\<close>

definition aligned_spec :: "nat \<Rightarrow> nat \<Rightarrow> nat" where
  "aligned_spec instanceSize' minOffsetAlignment =
     nat \<lceil>real instanceSize' / real minOffsetAlignment\<rceil> * minOffsetAlignment"

section \<open>\<open>LveSwapChain\<close> (lve_swap_chain.hpp)\<close>

text \<open>\<open>static constexpr int MAX_FRAMES_IN_FLIGHT = 2\<close>.\<close>

definition MAX_FRAMES_IN_FLIGHT :: c_int where
  "MAX_FRAMES_IN_FLIGHT = 2"

text \<open>
  What the chain does with its synchronisation objects, in order: the fence of a frame
  slot waited for or reset, the command buffer of a slot submitted for an image, an
  image presented.
\<close>

datatype sync_event =
    WaitForFence nat
  | ResetFence nat
  | QueueSubmit nat VkCommandBuffer nat
  | QueuePresent nat

text \<open>
  The value members of the class. \<open>imagesInFlight\<close> is the back-reference of each swap
  image to the frame slot whose fence guards it, absent at first; \<open>syncLog\<close> records the
  synchronisation calls made so far. \<open>currentFrame\<close> is a \<open>size_t\<close>, initialised to 0.
\<close>

record LveSwapChain =
  swapChainImageFormat :: VkFormat
  swapChainDepthFormat :: VkFormat
  swapChainExtent :: VkExtent2D
  swapChainImages :: "VkImage list"
  windowExtent :: VkExtent2D
  imagesInFlight :: "nat \<rightharpoonup> nat"
  syncLog :: "sync_event list"
  currentFrame :: size_t

definition imageCount :: "LveSwapChain \<Rightarrow> nat" where
  "imageCount sc = length (swapChainImages sc)"

definition getSwapChainImageFormat :: "LveSwapChain \<Rightarrow> VkFormat" where
  "getSwapChainImageFormat sc = swapChainImageFormat sc"

definition getSwapChainExtent :: "LveSwapChain \<Rightarrow> VkExtent2D" where
  "getSwapChainExtent sc = swapChainExtent sc"

text \<open>\<open>a.compareSwapFormats(b)\<close>: the first argument is \<open>this\<close>, the second the parameter.\<close>

definition compareSwapFormats :: "LveSwapChain \<Rightarrow> LveSwapChain \<Rightarrow> bool" where
  "compareSwapFormats this swapChain \<longleftrightarrow>
     swapChainDepthFormat swapChain = swapChainDepthFormat this \<and>
     swapChainImageFormat swapChain = swapChainImageFormat this"

text \<open>
  Modelled from the spec: \<open>LveSwapChain::submitCommandBuffers\<close> is declared in
  lve_swap_chain.hpp, and its body (lve_swap_chain.cpp) is not among the sources. The
  spec (4.2): if the target swap image is still marked in use by an earlier frame slot,
  wait on that slot's fence first; reset the current slot's fence; submit the command
  buffer; present; return the status of the presentation (out-of-date and suboptimal
  included) rather than failing; advance
  \<open>frameIndex = (frameIndex + 1) mod MAX_FRAMES_IN_FLIGHT\<close> unconditionally after
  submission, regardless of the present outcome. The status of the presentation is the
  display engine's, so it is the argument \<open>presentResult\<close>.
\<close>

definition submitCommandBuffers ::
  "LveSwapChain \<Rightarrow> VkCommandBuffer \<Rightarrow> uint32_t \<Rightarrow> VkResult \<Rightarrow> VkResult \<times> LveSwapChain" where
  "submitCommandBuffers sc buffers imageIndex presentResult =
     (let slot = unat (currentFrame sc);
          image = unat imageIndex;
          waits = (case imagesInFlight sc image of
                     Some earlier \<Rightarrow> [WaitForFence earlier]
                   | None \<Rightarrow> []);
          events = waits @ [ResetFence slot, QueueSubmit slot buffers image, QueuePresent image]
      in (presentResult,
          sc\<lparr> imagesInFlight := (imagesInFlight sc)(image \<mapsto> slot),
              syncLog := syncLog sc @ events,
              currentFrame := (currentFrame sc + 1) mod scast MAX_FRAMES_IN_FLIGHT \<rparr>))"

text \<open>
  A run of frames: each frame is the command buffer, the image acquired for it and the
  status its presentation reported. \<open>frame_slots\<close> lists the frame index each frame was
  submitted under, \<open>submit_frames\<close> gives the chain after the last one.
\<close>

fun submit_frames :: "LveSwapChain \<Rightarrow> (VkCommandBuffer \<times> uint32_t \<times> VkResult) list \<Rightarrow> LveSwapChain" where
  "submit_frames sc [] = sc"
| "submit_frames sc ((buffers, imageIndex, presentResult) # fs) =
     submit_frames (snd (submitCommandBuffers sc buffers imageIndex presentResult)) fs"

fun frame_slots :: "LveSwapChain \<Rightarrow> (VkCommandBuffer \<times> uint32_t \<times> VkResult) list \<Rightarrow> nat list" where
  "frame_slots sc [] = []"
| "frame_slots sc ((buffers, imageIndex, presentResult) # fs) =
     unat (currentFrame sc)
       # frame_slots (snd (submitCommandBuffers sc buffers imageIndex presentResult)) fs"

section \<open>\<open>LveRenderer\<close> (lve_renderer.hpp)\<close>

text \<open>
  The value members of the class; \<open>currentFrameIndex\<close> is an \<open>int\<close>. Indexing the
  \<open>std::vector\<close> converts the index to \<open>size_t\<close>; out of range it is undefined
  behaviour.
\<close>

record LveRenderer =
  commandBuffers :: "VkCommandBuffer list"
  currentImageIndex :: uint32_t
  currentFrameIndex :: c_int
  isFrameStarted :: bool

definition isFrameInProgres :: "LveRenderer \<Rightarrow> bool" where
  "isFrameInProgres r = isFrameStarted r"

definition vector_at :: "'a list \<Rightarrow> size_t \<Rightarrow> error + 'a" where
  "vector_at xs i = (if unat i < length xs then Inr (xs ! unat i) else Inl UndefinedBehaviour)"

definition getCurrentCommandBuffer :: "LveRenderer \<Rightarrow> error + VkCommandBuffer" where
  "getCurrentCommandBuffer r =
     (if \<not> isFrameStarted r
      then Inl (AssertionFailed ''Cannot get command buffer when frame not in progress'')
      else vector_at (commandBuffers r) (scast (currentFrameIndex r)))"

definition getFrameIndex :: "LveRenderer \<Rightarrow> error + c_int" where
  "getFrameIndex r =
     (if \<not> isFrameStarted r
      then Inl (AssertionFailed ''Cannot get frame index when frame not in progress'')
      else Inr (currentFrameIndex r))"

section \<open>Concrete devices, buffers and data\<close>

text \<open>
  A device that grants every request with the handles 1 and 2, a driver whose calls all
  succeed, and some host memory, for evaluating the operations on concrete inputs.
  \<open>buffer_68_64_3\<close> is what the constructor returns for 68-byte instances, three of them,
  aligned to 64; \<open>buffer_5_8_wrap\<close> what it returns for 5-byte instances, eight of them,
  with the offset alignment \<open>2\<^sup>6\<^sup>4 - 1\<close>, where the sum in \<open>getAlignment\<close> wraps around.
  \<open>fresh_chain\<close> is a swap chain of three images before its first frame.
\<close>

definition granting_device :: createBuffer_fn where
  "granting_device size' usage properties = Inr (1, 2)"

definition succeeding_driver :: driver where
  "succeeding_driver c = VK_SUCCESS"

definition zero_bytes :: bytes where
  "zero_bytes a = 0"

definition ramp_bytes :: bytes where
  "ramp_bytes a = of_nat a + 1"

definition buffer_68_64_3 :: LveBuffer where
  "buffer_68_64_3 = \<lparr> mapped = None, buffer = 1, memory = 2, bufferSize = 384, instanceCount = 3,
      instanceSize = 68, alignmentSize = 128, usageFlags = 0, memoryPropertyFlags = 0 \<rparr>"

definition buffer_5_8_wrap :: LveBuffer where
  "buffer_5_8_wrap = \<lparr> mapped = None, buffer = 1, memory = 2, bufferSize = 8, instanceCount = 8,
      instanceSize = 5, alignmentSize = 1, usageFlags = 0, memoryPropertyFlags = 0 \<rparr>"

definition fresh_chain :: LveSwapChain where
  "fresh_chain = \<lparr> swapChainImageFormat = 50, swapChainDepthFormat = 126,
      swapChainExtent = \<lparr> width = 800, height = 600 \<rparr>, swapChainImages = [1, 2, 3],
      windowExtent = \<lparr> width = 800, height = 600 \<rparr>, imagesInFlight = Map.empty,
      syncLog = [], currentFrame = 0 \<rparr>"

section \<open>Word arithmetic behind the offsets\<close>

text \<open>
  Clearing the bits of a mask subtracts the masked part; with a mask of low bits this
  rounds down to a multiple of a power of two.
\<close>

lemma word_and_not_eq_diff:
  fixes x m :: "'a::len word"
  shows "x AND NOT m = x - (x AND m)"
proof -
  have "x - (x AND m) = x AND NOT (x AND m)"
    by (rule disjunctive_diff) (simp add: bit_and_iff)
  also have "\<dots> = x AND NOT m"
    by (rule bit_eqI) (auto simp: bit_simps)
  finally show ?thesis by simp
qed

lemma unat_and_not:
  fixes x m :: "'a::len word"
  shows "unat (x AND NOT m) = unat x - unat (x AND m)"
proof -
  have "x AND m \<le> x" by (rule word_and_le2)
  then show ?thesis
    by (simp add: word_and_not_eq_diff unat_sub)
qed

lemma unat_and_not_ge:
  fixes x m :: "'a::len word"
  shows "unat x - unat m \<le> unat (x AND NOT m)"
proof -
  have "x AND m \<le> m" by (rule word_and_le1)
  then have "unat (x AND m) \<le> unat m" by (simp add: word_le_nat_alt)
  then show ?thesis by (simp add: unat_and_not)
qed

lemma unat_and_not_mask:
  fixes x :: "'a::len word"
  shows "unat (x AND NOT (mask k)) = (unat x div 2 ^ k) * 2 ^ k"
proof -
  have "unat (x AND mask k) = unat (take_bit k x)"
    by (simp only: take_bit_eq_mask)
  also have "\<dots> = take_bit k (unat x)"
    by (rule unsigned_take_bit_eq)
  also have "\<dots> = unat x mod 2 ^ k"
    by (rule take_bit_eq_mod)
  finally have "unat (x AND mask k) = unat x mod 2 ^ k" .
  then show ?thesis
    by (simp add: unat_and_not minus_mod_eq_div_mult)
qed

lemma unat_plus_minus_one:
  fixes s a :: "'a::len word"
  assumes "0 < a" and "unat s + unat a - 1 < 2 ^ LENGTH('a)"
  shows "unat (s + a - 1) = unat s + unat a - 1"
proof -
  have a1: "1 \<le> unat a" using assms(1) by (simp add: word_less_nat_alt)
  have e: "s + a - 1 = s + (a - 1)" by simp
  have m: "unat (a - 1) = unat a - 1"
    using assms(1) by (simp add: unat_minus_one word_neq_0_conv)
  have "unat (s + (a - 1)) = unat s + unat (a - 1)"
    using assms(2) a1 m by (simp add: unat_add_lem [THEN iffD1])
  then show ?thesis unfolding e using a1 m by simp
qed

lemma getAlignment_ge:
  assumes "minOffsetAlignment = 0 \<or> unat s + unat minOffsetAlignment - 1 < 2 ^ 64"
  shows "unat s \<le> unat (getAlignment s minOffsetAlignment)"
proof (cases "minOffsetAlignment = 0")
  case True
  then show ?thesis by (simp add: getAlignment_def)
next
  case False
  then have pos: "0 < minOffsetAlignment" by (simp add: word_neq_0_conv)
  with assms False have nw: "unat s + unat minOffsetAlignment - 1 < 2 ^ LENGTH(64)" by simp
  have a1: "1 \<le> unat minOffsetAlignment" using pos by (simp add: word_less_nat_alt)
  have m: "unat (minOffsetAlignment - 1) = unat minOffsetAlignment - 1"
    using pos by (simp add: unat_minus_one word_neq_0_conv)
  have "unat (s + minOffsetAlignment - 1) - unat (minOffsetAlignment - 1)
          \<le> unat ((s + minOffsetAlignment - 1) AND NOT (minOffsetAlignment - 1))"
    by (rule unat_and_not_ge)
  then show ?thesis
    using pos a1 m unat_plus_minus_one [OF pos nw] by (simp add: getAlignment_def)
qed

lemma getAlignment_pow2:
  assumes "k < 64" and "unat s + 2 ^ k - 1 < (2::nat) ^ 64"
  shows "unat (getAlignment s (2 ^ k)) = ((unat s + 2 ^ k - 1) div 2 ^ k) * 2 ^ k"
proof -
  have pos: "(0::64 word) < 2 ^ k" using assms(1) by (simp add: word_neq_0_conv [symmetric])
  have "(2::64 word) ^ k = of_nat (2 ^ k)" by simp
  then have "unat ((2::64 word) ^ k) = 2 ^ k mod 2 ^ LENGTH(64)"
    by (simp only: unat_of_nat)
  moreover have "(2::nat) ^ k < 2 ^ 64"
    by (rule power_strict_increasing [OF assms(1)]) simp
  ultimately have u: "unat ((2::64 word) ^ k) = 2 ^ k" by simp
  have nw: "unat s + unat ((2::64 word) ^ k) - 1 < 2 ^ LENGTH(64)" using assms(2) u by simp
  have "(2::64 word) ^ k - 1 = mask k" by (simp add: mask_eq_decr_exp)
  then have "getAlignment s (2 ^ k) = (s + 2 ^ k - 1) AND NOT (mask k)"
    using pos by (simp add: getAlignment_def)
  then show ?thesis
    using unat_plus_minus_one [OF pos nw] u by (simp add: unat_and_not_mask)
qed

text \<open>
  A non-negative \<open>int\<close> index below the instance count, times a stride whose product
  with the count fits 64 bits, does not wrap.
\<close>

lemma unat_scast_nonneg:
  fixes i :: "32 word"
  assumes "0 \<le> sint i"
  shows "unat (scast i :: 64 word) = nat (sint i)"
proof -
  have "sint i < 2 ^ (LENGTH(32) - 1)" by (rule sint_lt)
  also have "(2::int) ^ (LENGTH(32) - 1) \<le> 2 ^ LENGTH(64)"
    by (rule power_increasing) simp_all
  finally have b: "sint i < 2 ^ LENGTH(64)" .
  have "uint (scast i :: 64 word) = sint i mod 2 ^ LENGTH(64)"
    unfolding scast_eq by (rule uint_word_of_int)
  also have "\<dots> = sint i" using assms b by (rule mod_pos_pos_trivial)
  finally have "uint (scast i :: 64 word) = sint i" .
  moreover have "unat (scast i :: 64 word) = nat (uint (scast i :: 64 word))"
    by (rule unat_eq_nat_uint)
  ultimately show ?thesis by (simp only:)
qed

lemma index_offset_nowrap:
  fixes i :: "32 word" and n :: "32 word" and al :: "64 word"
  assumes "0 \<le> sint i" and "sint i < uint n" and "unat al * unat n < 2 ^ 64"
  shows "unat (scast i * al) = nat (sint i) * unat al"
proof -
  have "unat n = nat (uint n)" by (rule unat_eq_nat_uint)
  then have lt: "nat (sint i) < unat n" using assms(1,2) by linarith
  have "nat (sint i) * unat al \<le> unat n * unat al"
    using lt by (intro mult_right_mono) simp_all
  also have "\<dots> = unat al * unat n" by (rule mult.commute)
  also have "\<dots> < 2 ^ 64" by (rule assms(3))
  finally have "unat (scast i :: 64 word) * unat al < 2 ^ LENGTH(64)"
    by (simp add: unat_scast_nonneg [OF assms(1)])
  then have "unat (scast i * al) = unat (scast i :: 64 word) * unat al"
    by (simp only: unat_mult_lem)
  then show ?thesis by (simp only: unat_scast_nonneg [OF assms(1)])
qed

lemma unat_ucast_up:
  fixes n :: "32 word"
  shows "unat (ucast n :: 64 word) = unat n"
proof -
  have "unat n < 2 ^ LENGTH(32)" by (rule unsigned_less)
  also have "(2::nat) ^ LENGTH(32) \<le> 2 ^ 64"
    by (rule power_increasing) simp_all
  finally have "take_bit 64 (unat n) = unat n" by (rule take_bit_nat_eq_self)
  then show ?thesis by (simp add: unsigned_ucast_eq)
qed

section \<open>The spec's ceiling formula on the naturals\<close>

lemma ceiling_nat_div:
  fixes s a :: nat
  assumes "0 < a"
  shows "nat \<lceil>real s / real a\<rceil> = (s + a - 1) div a"
proof -
  let ?q = "(s + a - 1) div a"
  have up: "s \<le> ?q * a"
  proof -
    have "s + a - 1 < ?q * a + a"
      using assms div_mult_mod_eq [of "s + a - 1" a] mod_less_divisor [OF assms, of "s + a - 1"]
      by linarith
    then show ?thesis using assms by linarith
  qed
  have lo: "?q * a < s + a"
  proof -
    have "?q * a \<le> s + a - 1" by simp
    then show ?thesis using assms by linarith
  qed
  have "\<lceil>real s / real a\<rceil> = int ?q"
  proof (rule ceiling_unique)
    have "real ?q * real a < real s + real a"
      using lo by (metis of_nat_add of_nat_less_iff of_nat_mult)
    then have "(real ?q - 1) * real a < real s" by (simp add: algebra_simps)
    then show "of_int (int ?q) - 1 < real s / real a"
      using assms by (simp add: pos_less_divide_eq)
    have "real s \<le> real ?q * real a"
      using up by (metis of_nat_le_iff of_nat_mult)
    then show "real s / real a \<le> of_int (int ?q)"
      using assms by (simp add: pos_divide_le_eq)
  qed
  then show ?thesis by simp
qed

lemma aligned_spec_eq:
  "0 < a \<Longrightarrow> aligned_spec s a = ((s + a - 1) div a) * a"
  by (simp add: aligned_spec_def ceiling_nat_div)

section \<open>What the buffer operations do\<close>

lemma LveBuffer_ctor_InrD:
  assumes "LveBuffer_ctor createBuffer s n usage properties a = Inr b"
  shows "alignmentSize b = getAlignment s a"
    and "bufferSize b = getAlignment s a * ucast n"
    and "instanceSize b = s"
    and "instanceCount b = n"
    and "mapped b = None"
    and "createBuffer (bufferSize b) usage properties = Inr (buffer b, memory b)"
  using assms
  by (auto simp: LveBuffer_ctor_def Let_def split: sum.splits prod.splits)

lemma getAlignment_68_64: "getAlignment 68 64 = 128"
  by (simp add: getAlignment_def)

lemma LveBuffer_ctor_68_64_3:
  "LveBuffer_ctor granting_device 68 3 0 0 64 = Inr buffer_68_64_3"
  by (simp add: LveBuffer_ctor_def granting_device_def getAlignment_68_64 buffer_68_64_3_def)

text \<open>Mapping a created buffer stores the pointer the driver returned.\<close>

lemma map_buffer_created:
  assumes "buffer b \<noteq> 0" and "memory b \<noteq> 0"
      and "vkMapMemory (memory b) offset size' = (r, p)"
  shows "map_buffer vkMapMemory b size' offset = Inr (r, b\<lparr>mapped := p\<rparr>)"
  using assms by (simp add: map_buffer_def)

lemma flushIndex_trace:
  "snd (flushIndex vk b index tr)
     = tr @ [VkFlushMappedMemoryRanges
               \<lparr> mr_memory = memory b, mr_offset = scast index * alignmentSize b,
                 mr_size = alignmentSize b \<rparr>]"
  by (simp add: flushIndex_def flush_def Let_def)

lemma invalidateIndex_trace:
  "snd (invalidateIndex vk b index tr)
     = tr @ [VkInvalidateMappedMemoryRanges
               \<lparr> mr_memory = memory b, mr_offset = scast index * alignmentSize b,
                 mr_size = alignmentSize b \<rparr>]"
  by (simp add: invalidateIndex_def invalidate_def Let_def)

lemma descriptorInfoForIndex_eq:
  "descriptorInfoForIndex b index
     = \<lparr> dbi_buffer = buffer b, dbi_offset = scast index * alignmentSize b,
         dbi_range = alignmentSize b \<rparr>"
  by (simp add: descriptorInfoForIndex_def descriptorInfo_def)

lemma writeToIndex_mapped:
  assumes "mapped b = Some m" and "instanceSize b \<noteq> VK_WHOLE_SIZE"
  shows "writeToIndex b data index
           = Inr (b\<lparr>mapped := Some (memcpy m (unat (scast index * alignmentSize b)) data
                                      (unat (instanceSize b)))\<rparr>)"
  using assms by (simp add: writeToIndex_def writeToBuffer_def)

lemma memcpy_range:
  "memcpy dst lo src n a = (if a \<in> {lo..<lo + n} then src (a - lo) else dst a)"
  by (simp add: memcpy_def)

lemma unat_VK_WHOLE_SIZE: "unat VK_WHOLE_SIZE = 2 ^ 64 - 1"
  by (simp add: VK_WHOLE_SIZE_def unsigned_minus_1_eq_mask mask_eq_exp_minus_1)

text \<open>Slots laid out at multiples of a stride that is at least the instance size.\<close>

lemma slots_ordered:
  fixes p q al s :: nat
  assumes "p < q" and "s \<le> al"
  shows "p * al + s \<le> q * al"
proof -
  have "p * al + s \<le> p * al + al" using assms(2) by simp
  also have "\<dots> = Suc p * al" by simp
  also have "\<dots> \<le> q * al" using assms(1) by (intro mult_le_mono1) simp
  finally show ?thesis .
qed

lemma slots_disjoint:
  fixes p q al s :: nat
  assumes "p \<noteq> q" and "s \<le> al"
  shows "{p * al ..< p * al + s} \<inter> {q * al ..< q * al + s} = {}"
proof (cases "p < q")
  case True
  from slots_ordered [OF True assms(2)] show ?thesis by auto
next
  case False
  with assms(1) have "q < p" by simp
  from slots_ordered [OF this assms(2)] show ?thesis by auto
qed

text \<open>
  A buffer as the constructor returns it, with no wrap-around in its sizes, then mapped:
  \<open>writeToIndex\<close> copies \<open>instanceSize\<close> bytes to \<open>index * alignmentSize\<close>. When
  \<open>instanceSize\<close> is the sentinel \<open>VK_WHOLE_SIZE\<close> the buffer has one instance only, and the
  whole-buffer branch of \<open>writeToBuffer\<close> copies the same bytes.
\<close>

lemma writeToIndex_constructed:
  assumes ctor: "LveBuffer_ctor createBuffer s n usage properties a = Inr b"
      and nwa: "a = 0 \<or> unat s + unat a - 1 < 2 ^ 64"
      and nwb: "unat (alignmentSize b) * unat n < 2 ^ 64"
      and i: "0 \<le> sint index" "sint index < uint n"
  shows "unat (scast index * alignmentSize b) = nat (sint index) * unat (alignmentSize b)"
    and "writeToIndex (b\<lparr>mapped := Some m\<rparr>) data index
           = Inr (b\<lparr>mapped := Some (memcpy m (nat (sint index) * unat (alignmentSize b)) data
                                      (unat s))\<rparr>)"
proof -
  note d = LveBuffer_ctor_InrD [OF ctor]
  let ?b = "b\<lparr>mapped := Some m\<rparr>"
  have ge: "unat s \<le> unat (alignmentSize b)"
    unfolding d(1) by (rule getAlignment_ge [OF nwa])
  have ci: "sint index < uint (instanceCount b)" using i(2) d(4) by simp
  have nb: "unat (alignmentSize b) * unat (instanceCount b) < 2 ^ 64" using nwb d(4) by simp
  show off: "unat (scast index * alignmentSize b) = nat (sint index) * unat (alignmentSize b)"
    by (rule index_offset_nowrap [OF i(1) ci nb])
  have m: "mapped ?b = Some m" by simp
  show "writeToIndex ?b data index
           = Inr (b\<lparr>mapped := Some (memcpy m (nat (sint index) * unat (alignmentSize b)) data
                                      (unat s))\<rparr>)"
  proof (cases "s = VK_WHOLE_SIZE")
    case False
    then have nw: "instanceSize ?b \<noteq> VK_WHOLE_SIZE" using d(3) by simp
    show ?thesis
      using writeToIndex_mapped [OF m nw, of data index] by (simp add: off d(3))
  next
    case True
    have lt: "unat (alignmentSize b) < 2 ^ LENGTH(64)" by (rule unsigned_less)
    have al: "unat (alignmentSize b) = 2 ^ 64 - 1"
      using ge lt True by (simp add: unat_VK_WHOLE_SIZE)
    have un: "unat n = nat (uint n)" by (rule unat_eq_nat_uint)
    have pos: "nat (sint index) < unat n" using i un by linarith
    have "unat n < 2"
    proof (rule ccontr)
      assume "\<not> unat n < 2"
      then have "2 \<le> unat n" by simp
      then have "(2 ^ 64 - 1) * 2 \<le> unat (alignmentSize b) * unat n"
        unfolding al by (rule mult_le_mono2)
      with nwb show False by simp
    qed
    with pos have n1: "unat n = 1" and i0: "nat (sint index) = 0" by simp_all
    have "n = 1" using n1 by (simp add: word_unat_eq_iff)
    then have bs: "bufferSize b = alignmentSize b" using d(1,2) by simp
    have "alignmentSize b = s"
      using al True by (simp add: word_unat_eq_iff unat_VK_WHOLE_SIZE)
    then have ubs: "unat (bufferSize b) = unat s" using bs by simp
    have "writeToIndex ?b data index
            = Inr (?b\<lparr>mapped := Some (memcpy m 0 data (unat (bufferSize b)))\<rparr>)"
      using True d(3) by (simp add: writeToIndex_def writeToBuffer_def)
    then show ?thesis using i0 ubs by simp
  qed
qed

section \<open>The frame index of the swap chain\<close>

lemma scast_MAX_FRAMES_IN_FLIGHT: "(scast MAX_FRAMES_IN_FLIGHT :: size_t) = 2"
  by (simp add: MAX_FRAMES_IN_FLIGHT_def)

lemma unat_succ_mod_2:
  fixes c :: size_t
  shows "unat ((c + 1) mod 2) = (unat c + 1) mod 2"
proof -
  have "unat ((c + 1) mod 2) = unat (c + 1) mod 2"
    by (simp add: unat_mod)
  also have "unat (c + 1) = (unat c + 1) mod 2 ^ LENGTH(64)"
    by (simp add: unat_word_ariths)
  also have "(unat c + 1) mod 2 ^ LENGTH(64) mod 2 = (unat c + 1) mod 2"
    by (rule mod_mod_cancel) simp
  finally show ?thesis .
qed

lemma currentFrame_submitCommandBuffers:
  "unat (currentFrame (snd (submitCommandBuffers sc buffers imageIndex presentResult)))
     = (unat (currentFrame sc) + 1) mod 2"
  by (simp add: submitCommandBuffers_def Let_def scast_MAX_FRAMES_IN_FLIGHT unat_succ_mod_2)

lemma fst_submitCommandBuffers:
  "fst (submitCommandBuffers sc buffers imageIndex presentResult) = presentResult"
  by (simp add: submitCommandBuffers_def Let_def)

lemma length_frame_slots: "length (frame_slots sc fs) = length fs"
  by (induction sc fs rule: frame_slots.induct) simp_all

lemma frame_slots_nth:
  "k < length fs \<Longrightarrow>
     frame_slots sc fs ! k
       = (if k = 0 then unat (currentFrame sc) else (unat (currentFrame sc) + k) mod 2)"
proof (induction sc fs arbitrary: k rule: frame_slots.induct)
  case (1 sc)
  then show ?case by simp
next
  case (2 sc buffers imageIndex presentResult fs)
  show ?case
  proof (cases k)
    case 0
    then show ?thesis by simp
  next
    case (Suc j)
    with "2.prems" have j: "j < length fs" by simp
    show ?thesis
      using "2.IH" [OF j] Suc
      by (simp add: currentFrame_submitCommandBuffers mod_simps)
  qed
qed

lemma currentFrame_submit_frames:
  "fs \<noteq> [] \<Longrightarrow>
     unat (currentFrame (submit_frames sc fs)) = (unat (currentFrame sc) + length fs) mod 2"
proof (induction sc fs rule: submit_frames.induct)
  case (1 sc)
  then show ?case by simp
next
  case (2 sc buffers imageIndex presentResult fs)
  show ?case
  proof (cases "fs = []")
    case True
    then show ?thesis by (simp add: currentFrame_submitCommandBuffers)
  next
    case False
    then show ?thesis
      using "2.IH" by (simp add: currentFrame_submitCommandBuffers mod_simps)
  qed
qed

section \<open>The indexed operations of the buffer\<close>

text \<open>
  C1, as the code has it. For a buffer the constructor returns, when the sum in
  \<open>getAlignment\<close> and the product \<open>alignmentSize * instanceCount\<close> both fit 64 bits, once
  mapped, and for an index \<open>i\<close> in \<open>[0, instanceCount)\<close>: the offset \<open>i * alignmentSize\<close>
  does not wrap; \<open>writeToIndex\<close> copies \<open>instanceSize\<close> bytes of the data to the bytes
  \<open>[i * alignmentSize, i * alignmentSize + instanceSize)\<close> of the mapped region and leaves
  all other bytes alone; \<open>flushIndex\<close>, \<open>descriptorInfoForIndex\<close> and \<open>invalidateIndex\<close>
  act at the same offset on \<open>alignmentSize\<close> bytes, the whole slot with its padding.
\<close>

theorem indexed_operations_ranges:
  assumes "LveBuffer_ctor createBuffer s n usage properties minOffsetAlignment = Inr b"
      and "minOffsetAlignment = 0 \<or> unat s + unat minOffsetAlignment - 1 < 2 ^ 64"
      and "unat (alignmentSize b) * unat n < 2 ^ 64"
      and "0 \<le> sint index" and "sint index < uint n"
  shows "unat (scast index * alignmentSize b) = nat (sint index) * unat (alignmentSize b) \<and>
         writeToIndex (b\<lparr>mapped := Some m\<rparr>) data index
           = Inr (b\<lparr>mapped := Some (memcpy m (nat (sint index) * unat (alignmentSize b)) data
                                      (unat s))\<rparr>) \<and>
         (\<forall>addr. memcpy m (nat (sint index) * unat (alignmentSize b)) data (unat s) addr
               = (if addr \<in> {nat (sint index) * unat (alignmentSize b)
                               ..< nat (sint index) * unat (alignmentSize b) + unat s}
                  then data (addr - nat (sint index) * unat (alignmentSize b)) else m addr)) \<and>
         snd (flushIndex vk (b\<lparr>mapped := Some m\<rparr>) index tr)
           = tr @ [VkFlushMappedMemoryRanges
                     \<lparr> mr_memory = memory b, mr_offset = scast index * alignmentSize b,
                       mr_size = alignmentSize b \<rparr>] \<and>
         descriptorInfoForIndex (b\<lparr>mapped := Some m\<rparr>) index
           = \<lparr> dbi_buffer = buffer b, dbi_offset = scast index * alignmentSize b,
               dbi_range = alignmentSize b \<rparr> \<and>
         snd (invalidateIndex vk (b\<lparr>mapped := Some m\<rparr>) index tr)
           = tr @ [VkInvalidateMappedMemoryRanges
                     \<lparr> mr_memory = memory b, mr_offset = scast index * alignmentSize b,
                       mr_size = alignmentSize b \<rparr>]"
proof -
  note off = writeToIndex_constructed(1) [OF assms]
  note w = writeToIndex_constructed(2) [OF assms, of m data]
  show ?thesis
    using off w
    by (simp only: flushIndex_trace invalidateIndex_trace descriptorInfoForIndex_eq memcpy_range)
       simp
qed

text \<open>The third instance of the 68/64/3 buffer: written at 256 to 324, flushed at 256 to 384.\<close>

theorem indexed_operations_ranges_witness:
  "LveBuffer_ctor granting_device 68 3 0 0 64 = Inr buffer_68_64_3 \<and>
   (case writeToIndex (buffer_68_64_3\<lparr>mapped := Some zero_bytes\<rparr>) ramp_bytes 2 of
      Inr b' \<Rightarrow> map_option (\<lambda>m'. map m' [255, 256, 323, 324]) (mapped b') = Some [0, 1, 68, 0]
    | Inl e \<Rightarrow> False) \<and>
   snd (flushIndex succeeding_driver (buffer_68_64_3\<lparr>mapped := Some zero_bytes\<rparr>) 2 [])
     = [VkFlushMappedMemoryRanges \<lparr> mr_memory = 2, mr_offset = 256, mr_size = 128 \<rparr>] \<and>
   descriptorInfoForIndex (buffer_68_64_3\<lparr>mapped := Some zero_bytes\<rparr>) 2
     = \<lparr> dbi_buffer = 1, dbi_offset = 256, dbi_range = 128 \<rparr> \<and>
   snd (invalidateIndex succeeding_driver (buffer_68_64_3\<lparr>mapped := Some zero_bytes\<rparr>) 2 [])
     = [VkInvalidateMappedMemoryRanges \<lparr> mr_memory = 2, mr_offset = 256, mr_size = 128 \<rparr>]"
proof -
  have a: "(64 :: VkDeviceSize) = 0 \<or> unat (68 :: VkDeviceSize) + unat (64 :: VkDeviceSize) - 1 < 2 ^ 64"
    by simp
  have n: "unat (alignmentSize buffer_68_64_3) * unat (3 :: uint32_t) < 2 ^ 64"
    by (simp add: buffer_68_64_3_def)
  have i: "0 \<le> sint (2 :: c_int)" "sint (2 :: c_int) < uint (3 :: uint32_t)" by simp_all
  show ?thesis
    using indexed_operations_ranges [OF LveBuffer_ctor_68_64_3 a n i,
        of zero_bytes ramp_bytes succeeding_driver "[]"]
      LveBuffer_ctor_68_64_3
    by (simp add: buffer_68_64_3_def zero_bytes_def ramp_bytes_def memcpy_def)
qed

text \<open>
  The specification's statement fails for the flush, the descriptor and the invalidation: on the
  68/64/3 buffer, index 1 gets the 128 bytes from 128 on, not the 68 bytes of the
  instance, so the range reaches into the padding from 196 to 256.
\<close>

theorem flushIndex_covers_padding_counterexample:
  "LveBuffer_ctor granting_device 68 3 0 0 64 = Inr buffer_68_64_3 \<and>
   snd (flushIndex succeeding_driver buffer_68_64_3 1 [])
     = [VkFlushMappedMemoryRanges \<lparr> mr_memory = 2, mr_offset = 128, mr_size = 128 \<rparr>] \<and>
   instanceSize buffer_68_64_3 = 68 \<and>
   descriptorInfoForIndex buffer_68_64_3 1 = \<lparr> dbi_buffer = 1, dbi_offset = 128, dbi_range = 128 \<rparr> \<and>
   snd (invalidateIndex succeeding_driver buffer_68_64_3 1 [])
     = [VkInvalidateMappedMemoryRanges \<lparr> mr_memory = 2, mr_offset = 128, mr_size = 128 \<rparr>] \<and>
   {unat (128 :: VkDeviceSize) ..< unat (128 :: VkDeviceSize) + unat (128 :: VkDeviceSize)}
     \<noteq> {1 * 128 ..< 1 * 128 + unat (instanceSize buffer_68_64_3)}"
proof -
  have "{128 ..< 256} \<noteq> {128 ..< (196::nat)}"
  proof
    assume "{128 ..< 256} = {128 ..< (196::nat)}"
    then have "(200::nat) \<in> {128 ..< 196}" by auto
    then show False by simp
  qed
  then show ?thesis
    by (simp add: LveBuffer_ctor_def granting_device_def getAlignment_def buffer_68_64_3_def
        flushIndex_trace invalidateIndex_trace descriptorInfoForIndex_eq)
qed

section \<open>The stride computed by the constructor\<close>

text \<open>
  C2, as the code has it. When \<open>minOffsetAlignment\<close> is a power of two \<open>2\<^sup>k\<close> with
  \<open>k < 64\<close> and \<open>instanceSize + minOffsetAlignment - 1\<close> fits 64 bits, a buffer the
  constructor returns has
  \<open>alignmentSize = ceil(instanceSize / minOffsetAlignment) * minOffsetAlignment\<close>, a
  multiple of \<open>minOffsetAlignment\<close> that is at least \<open>instanceSize\<close>; its \<open>bufferSize\<close> is
  \<open>alignmentSize * instanceCount\<close> modulo \<open>2\<^sup>6\<^sup>4\<close>, and its handles are the ones the
  device returned for a request of \<open>bufferSize\<close> bytes.
\<close>

theorem ctor_alignment_power_of_two:
  assumes "k < 64"
      and "unat s + 2 ^ k - 1 < (2::nat) ^ 64"
      and "LveBuffer_ctor createBuffer s n usage properties (2 ^ k) = Inr b"
  shows "unat (alignmentSize b) = aligned_spec (unat s) (2 ^ k) \<and>
         unat (alignmentSize b) mod 2 ^ k = 0 \<and>
         unat s \<le> unat (alignmentSize b) \<and>
         bufferSize b = alignmentSize b * ucast n \<and>
         unat (bufferSize b) = (unat (alignmentSize b) * unat n) mod 2 ^ 64 \<and>
         createBuffer (bufferSize b) usage properties = Inr (buffer b, memory b)"
proof -
  note d = LveBuffer_ctor_InrD [OF assms(3)]
  have al: "unat (alignmentSize b) = ((unat s + 2 ^ k - 1) div 2 ^ k) * 2 ^ k"
    unfolding d(1) by (rule getAlignment_pow2 [OF assms(1,2)])
  have sp: "unat (alignmentSize b) = aligned_spec (unat s) (2 ^ k)"
    unfolding al by (simp add: aligned_spec_eq)
  have md: "unat (alignmentSize b) mod 2 ^ k = 0"
    unfolding al by simp
  have ge: "unat s \<le> unat (alignmentSize b)"
  proof -
    have "unat s + 2 ^ k - 1 < ((unat s + 2 ^ k - 1) div 2 ^ k) * 2 ^ k + 2 ^ k"
      using div_mult_mod_eq [of "unat s + 2 ^ k - 1" "2 ^ k"]
        mod_less_divisor [of "2 ^ k" "unat s + 2 ^ k - 1"]
      by (metis add_less_cancel_left zero_less_numeral zero_less_power)
    then show ?thesis unfolding al by simp
  qed
  have bs: "bufferSize b = alignmentSize b * ucast n"
    by (simp only: d(1,2))
  have "unat (alignmentSize b * ucast n)
          = (unat (alignmentSize b) * unat (ucast n :: 64 word)) mod 2 ^ LENGTH(64)"
    by (simp only: unat_word_ariths)
  then have ub: "unat (bufferSize b) = (unat (alignmentSize b) * unat n) mod 2 ^ 64"
    by (simp add: bs unat_ucast_up)
  show ?thesis using sp md ge bs ub d(6) by simp
qed

theorem ctor_alignment_power_of_two_witness:
  "LveBuffer_ctor granting_device 68 3 0 0 64 = Inr buffer_68_64_3 \<and>
   unat (alignmentSize buffer_68_64_3) = 128 \<and>
   aligned_spec 68 64 = 128 \<and> (128::nat) mod 64 = 0 \<and> (68::nat) \<le> 128 \<and>
   unat (bufferSize buffer_68_64_3) = 384 \<and>
   granting_device 384 0 0 = Inr (1, 2)"
proof -
  have c: "LveBuffer_ctor granting_device 68 3 0 0 (2 ^ 6) = Inr buffer_68_64_3"
    using LveBuffer_ctor_68_64_3 by simp
  have k: "(6::nat) < 64" by simp
  have nw: "unat (68::64 word) + 2 ^ 6 - 1 < (2::nat) ^ 64" by simp
  show ?thesis
    using ctor_alignment_power_of_two [OF k nw c] c
    by (simp add: buffer_68_64_3_def)
qed

text \<open>
  The specification's statement fails when \<open>minOffsetAlignment\<close> is not a power of two: for
  \<open>instanceSize = 4\<close> and \<open>minOffsetAlignment = 3\<close> the mask leaves
  \<open>alignmentSize = 4\<close>, which is neither \<open>ceil(4 / 3) * 3 = 6\<close> nor a multiple of 3.
\<close>

theorem ctor_alignment_counterexample:
  "LveBuffer_ctor granting_device 4 1 0 0 3
     = Inr \<lparr> mapped = None, buffer = 1, memory = 2, bufferSize = 4, instanceCount = 1,
             instanceSize = 4, alignmentSize = 4, usageFlags = 0, memoryPropertyFlags = 0 \<rparr> \<and>
   aligned_spec 4 3 = 6 \<and> (4::nat) mod 3 = 1"
  by (simp add: LveBuffer_ctor_def granting_device_def getAlignment_def aligned_spec_eq)

section \<open>Instances do not share bytes\<close>

text \<open>
  C3, as the code has it. For a buffer the constructor returns, when the sum in
  \<open>getAlignment\<close> and the product \<open>alignmentSize * instanceCount\<close> both fit 64 bits, and
  two distinct indices \<open>i\<close> and \<open>j\<close> in \<open>[0, instanceCount)\<close>: on the mapped buffer
  \<open>writeToIndex\<close> at \<open>i\<close> and at \<open>j\<close> copy \<open>instanceSize\<close> bytes to
  \<open>i * alignmentSize\<close> and to \<open>j * alignmentSize\<close>, and the two ranges are disjoint.
\<close>

theorem writeToIndex_ranges_disjoint:
  assumes ctor: "LveBuffer_ctor createBuffer s n usage properties a = Inr b"
      and nwa: "a = 0 \<or> unat s + unat a - 1 < 2 ^ 64"
      and nwb: "unat (alignmentSize b) * unat n < 2 ^ 64"
      and i: "0 \<le> sint i" "sint i < uint n"
      and j: "0 \<le> sint j" "sint j < uint n"
      and ne: "i \<noteq> j"
  shows "writeToIndex (b\<lparr>mapped := Some m\<rparr>) data i
           = Inr (b\<lparr>mapped := Some (memcpy m (nat (sint i) * unat (alignmentSize b)) data (unat s))\<rparr>) \<and>
         writeToIndex (b\<lparr>mapped := Some m\<rparr>) data' j
           = Inr (b\<lparr>mapped := Some (memcpy m (nat (sint j) * unat (alignmentSize b)) data' (unat s))\<rparr>) \<and>
         {nat (sint i) * unat (alignmentSize b) ..< nat (sint i) * unat (alignmentSize b) + unat s}
           \<inter> {nat (sint j) * unat (alignmentSize b) ..< nat (sint j) * unat (alignmentSize b) + unat s}
           = {}"
proof -
  note d = LveBuffer_ctor_InrD [OF ctor]
  have ge: "unat s \<le> unat (alignmentSize b)"
    unfolding d(1) by (rule getAlignment_ge [OF nwa])
  have pq: "nat (sint i) \<noteq> nat (sint j)"
  proof
    assume "nat (sint i) = nat (sint j)"
    with i(1) j(1) have "sint i = sint j" by simp
    then have "i = j" by (rule signed_word_eqI)
    with ne show False by simp
  qed
  note wi = writeToIndex_constructed(2) [OF ctor nwa nwb i, of m data]
  note wj = writeToIndex_constructed(2) [OF ctor nwa nwb j, of m data']
  show ?thesis
    using wi wj slots_disjoint [OF pq ge] by (intro conjI)
qed

theorem writeToIndex_ranges_disjoint_witness:
  "writeToIndex (buffer_68_64_3\<lparr>mapped := Some zero_bytes\<rparr>) ramp_bytes 0
     = Inr (buffer_68_64_3\<lparr>mapped := Some (memcpy zero_bytes 0 ramp_bytes 68)\<rparr>) \<and>
   writeToIndex (buffer_68_64_3\<lparr>mapped := Some zero_bytes\<rparr>) ramp_bytes 1
     = Inr (buffer_68_64_3\<lparr>mapped := Some (memcpy zero_bytes 128 ramp_bytes 68)\<rparr>) \<and>
   {0 ..< 68} \<inter> {128 ..< 196} = ({} :: nat set)"
proof -
  have a: "(64 :: VkDeviceSize) = 0 \<or> unat (68 :: VkDeviceSize) + unat (64 :: VkDeviceSize) - 1 < 2 ^ 64"
    by simp
  have n: "unat (alignmentSize buffer_68_64_3) * unat (3 :: uint32_t) < 2 ^ 64"
    by (simp add: buffer_68_64_3_def)
  have i: "0 \<le> sint (0 :: c_int)" "sint (0 :: c_int) < uint (3 :: uint32_t)" by simp_all
  have j: "0 \<le> sint (1 :: c_int)" "sint (1 :: c_int) < uint (3 :: uint32_t)" by simp_all
  have ne: "(0 :: c_int) \<noteq> 1" by simp
  have al: "unat (alignmentSize buffer_68_64_3) = 128" by (simp add: buffer_68_64_3_def)
  show ?thesis
    using writeToIndex_ranges_disjoint [OF LveBuffer_ctor_68_64_3 a n i j ne,
        of zero_bytes ramp_bytes ramp_bytes]
    by (simp add: al)
qed

text \<open>
  The specification's statement fails where the sum in \<open>getAlignment\<close> wraps around. With
  \<open>instanceSize = 5\<close> and \<open>minOffsetAlignment = 2\<^sup>6\<^sup>4 - 1\<close> the sum is \<open>2\<^sup>6\<^sup>4 + 3\<close>, that is 3,
  and the mask leaves the stride 1: index 0 writes the bytes 0 to 4 and index 1 the bytes
  1 to 5, so writing index 1 afterwards destroys four of the five bytes of index 0.
\<close>

theorem writeToIndex_ranges_overlap_counterexample:
  "LveBuffer_ctor granting_device 5 8 0 0 18446744073709551615 = Inr buffer_5_8_wrap \<and>
   writeToIndex (buffer_5_8_wrap\<lparr>mapped := Some zero_bytes\<rparr>) ramp_bytes 0
     = Inr (buffer_5_8_wrap\<lparr>mapped := Some (memcpy zero_bytes 0 ramp_bytes 5)\<rparr>) \<and>
   writeToIndex (buffer_5_8_wrap\<lparr>mapped := Some zero_bytes\<rparr>) ramp_bytes 1
     = Inr (buffer_5_8_wrap\<lparr>mapped := Some (memcpy zero_bytes 1 ramp_bytes 5)\<rparr>) \<and>
   {0 ..< 0 + 5} \<inter> {1 ..< 1 + 5} = {1, 2, 3, 4 :: nat} \<and>
   (case writeToIndex (buffer_5_8_wrap\<lparr>mapped := Some zero_bytes\<rparr>) ramp_bytes 0 of
      Inr b1 \<Rightarrow>
        (case writeToIndex b1 zero_bytes 1 of
           Inr b2 \<Rightarrow> map_option (\<lambda>m'. map m' [0, 1, 2, 3, 4]) (mapped b2) = Some [1, 0, 0, 0, 0]
         | Inl e \<Rightarrow> False)
    | Inl e \<Rightarrow> False)"
proof -
  have "{0 ..< 0 + 5} \<inter> {1 ..< 1 + 5} = {1, 2, 3, 4 :: nat}" by auto
  then show ?thesis
    by (simp add: LveBuffer_ctor_def granting_device_def getAlignment_def buffer_5_8_wrap_def
        writeToIndex_def writeToBuffer_def VK_WHOLE_SIZE_def memcpy_def zero_bytes_def
        ramp_bytes_def)
qed

section \<open>The frame index of the swap chain cycles\<close>

text \<open>
  C4. Whatever the presentation reports, \<open>submitCommandBuffers\<close> returns that status and
  leaves the frame index at its old value plus one modulo \<open>MAX_FRAMES_IN_FLIGHT\<close>. So
  from a chain whose index is 0, the frames of any run are submitted under the indices
  \<open>0, 1, \<dots>, MAX_FRAMES_IN_FLIGHT - 1, 0, \<dots>\<close>, the \<open>k\<close>-th under
  \<open>k mod MAX_FRAMES_IN_FLIGHT\<close>, and after \<open>n\<close> frames the index is
  \<open>n mod MAX_FRAMES_IN_FLIGHT\<close>.
\<close>

theorem frame_index_cycles:
  "unat (currentFrame (snd (submitCommandBuffers sc buffers imageIndex presentResult)))
     = (unat (currentFrame sc) + 1) mod unat (scast MAX_FRAMES_IN_FLIGHT :: size_t) \<and>
   fst (submitCommandBuffers sc buffers imageIndex presentResult) = presentResult \<and>
   (currentFrame sc = 0 \<longrightarrow>
      frame_slots sc fs
        = map (\<lambda>k. k mod unat (scast MAX_FRAMES_IN_FLIGHT :: size_t)) [0..<length fs] \<and>
      unat (currentFrame (submit_frames sc fs))
        = length fs mod unat (scast MAX_FRAMES_IN_FLIGHT :: size_t))"
proof -
  have M: "unat (scast MAX_FRAMES_IN_FLIGHT :: size_t) = 2"
    by (simp add: scast_MAX_FRAMES_IN_FLIGHT)
  {
    assume z: "currentFrame sc = 0"
    have "frame_slots sc fs = map (\<lambda>k. k mod 2) [0..<length fs]"
      by (rule nth_equalityI) (simp_all add: length_frame_slots frame_slots_nth z)
    moreover have "unat (currentFrame (submit_frames sc fs)) = length fs mod 2"
      using currentFrame_submit_frames [of fs sc] z by (cases "fs = []") simp_all
    ultimately have "frame_slots sc fs = map (\<lambda>k. k mod 2) [0..<length fs] \<and>
      unat (currentFrame (submit_frames sc fs)) = length fs mod 2" by simp
  }
  then show ?thesis
    by (simp add: M currentFrame_submitCommandBuffers fst_submitCommandBuffers)
qed

text \<open>Five frames, the second out of date and the third suboptimal: 0, 1, 0, 1, 0.\<close>

theorem frame_index_cycles_witness:
  "frame_slots fresh_chain
     [(7, 0, VK_SUCCESS), (8, 1, VK_ERROR_OUT_OF_DATE_KHR), (7, 2, VK_SUBOPTIMAL_KHR),
      (8, 0, VK_SUCCESS), (7, 1, VK_SUCCESS)] = [0, 1, 0, 1, 0] \<and>
   unat (currentFrame (submit_frames fresh_chain
     [(7, 0, VK_SUCCESS), (8, 1, VK_ERROR_OUT_OF_DATE_KHR), (7, 2, VK_SUBOPTIMAL_KHR),
      (8, 0, VK_SUCCESS), (7, 1, VK_SUCCESS)])) = 1"
proof -
  have z: "currentFrame fresh_chain = 0" by (simp add: fresh_chain_def)
  have u: "[0..<5] = [0, 1, 2, 3, 4]" by (simp add: upt_rec)
  show ?thesis
    using frame_index_cycles [of fresh_chain 7 0 VK_SUCCESS
      "[(7, 0, VK_SUCCESS), (8, 1, VK_ERROR_OUT_OF_DATE_KHR), (7, 2, VK_SUBOPTIMAL_KHR),
        (8, 0, VK_SUCCESS), (7, 1, VK_SUCCESS)]"] z
    by (simp add: scast_MAX_FRAMES_IN_FLIGHT u)
qed

section \<open>Writing needs a mapped buffer\<close>

text \<open>
  C5. \<open>writeToBuffer\<close> on an unmapped buffer fails its assertion and copies nothing; on
  a mapped buffer it returns the buffer with the data copied into the mapped region
  (\<open>size\<close> bytes at \<open>offset\<close>, or \<open>bufferSize\<close> bytes at the start for
  \<open>VK_WHOLE_SIZE\<close>). Whenever it returns a buffer, the buffer was mapped and still is.
\<close>

theorem writeToBuffer_requires_mapped:
  "(mapped b = None \<longrightarrow>
      writeToBuffer b data size' offset = Inl (AssertionFailed ''Cannot copy to unmapped buffer'')) \<and>
   (\<forall>m. mapped b = Some m \<longrightarrow>
      writeToBuffer b data size' offset
        = Inr (b\<lparr>mapped := Some (if size' = VK_WHOLE_SIZE
                                   then memcpy m 0 data (unat (bufferSize b))
                                   else memcpy m (unat offset) data (unat size'))\<rparr>)) \<and>
   (\<forall>b'. writeToBuffer b data size' offset = Inr b' \<longrightarrow> mapped b \<noteq> None \<and> mapped b' \<noteq> None) \<and>
   (\<forall>dst off n a. memcpy dst off data n a
                    = (if off \<le> a \<and> a < off + n then data (a - off) else dst a))"
  by (auto simp: writeToBuffer_def memcpy_def split: option.splits)

theorem writeToBuffer_requires_mapped_witness:
  "writeToBuffer buffer_68_64_3 ramp_bytes 4 8
     = Inl (AssertionFailed ''Cannot copy to unmapped buffer'') \<and>
   (case writeToBuffer (buffer_68_64_3\<lparr>mapped := Some zero_bytes\<rparr>) ramp_bytes 4 8 of
      Inr b' \<Rightarrow> map_option (\<lambda>m'. map m' [7, 8, 9, 10, 11, 12]) (mapped b') = Some [0, 1, 2, 3, 4, 0]
    | Inl e \<Rightarrow> False)"
  using writeToBuffer_requires_mapped [of buffer_68_64_3 ramp_bytes 4 8]
    writeToBuffer_requires_mapped [of "buffer_68_64_3\<lparr>mapped := Some zero_bytes\<rparr>" ramp_bytes 4 8]
  by (simp add: buffer_68_64_3_def VK_WHOLE_SIZE_def memcpy_def zero_bytes_def ramp_bytes_def)

section \<open>The accessors of the renderer\<close>

text \<open>
  C6. While no frame is started, \<open>getCurrentCommandBuffer\<close> and \<open>getFrameIndex\<close> fail
  their assertions. While a frame is started, \<open>getFrameIndex\<close> returns
  \<open>currentFrameIndex\<close>, and \<open>getCurrentCommandBuffer\<close> returns the element of
  \<open>commandBuffers\<close> at \<open>currentFrameIndex\<close>, for an index that the vector has.
\<close>

theorem renderer_accessors_need_frame:
  "(\<not> isFrameStarted r \<longrightarrow>
      getCurrentCommandBuffer r
        = Inl (AssertionFailed ''Cannot get command buffer when frame not in progress'') \<and>
      getFrameIndex r
        = Inl (AssertionFailed ''Cannot get frame index when frame not in progress'')) \<and>
   (isFrameStarted r \<longrightarrow>
      getFrameIndex r = Inr (currentFrameIndex r) \<and>
      (0 \<le> sint (currentFrameIndex r) \<and>
       nat (sint (currentFrameIndex r)) < length (commandBuffers r) \<longrightarrow>
         getCurrentCommandBuffer r = Inr (commandBuffers r ! nat (sint (currentFrameIndex r)))))"
  by (simp add: getCurrentCommandBuffer_def getFrameIndex_def vector_at_def unat_scast_nonneg)

theorem renderer_accessors_need_frame_witness:
  "getCurrentCommandBuffer \<lparr> commandBuffers = [10, 11], currentImageIndex = 0,
       currentFrameIndex = 1, isFrameStarted = True \<rparr> = Inr 11 \<and>
   getFrameIndex \<lparr> commandBuffers = [10, 11], currentImageIndex = 0,
       currentFrameIndex = 1, isFrameStarted = True \<rparr> = Inr 1 \<and>
   getCurrentCommandBuffer \<lparr> commandBuffers = [10, 11], currentImageIndex = 0,
       currentFrameIndex = 1, isFrameStarted = False \<rparr>
     = Inl (AssertionFailed ''Cannot get command buffer when frame not in progress'') \<and>
   getFrameIndex \<lparr> commandBuffers = [10, 11], currentImageIndex = 0,
       currentFrameIndex = 1, isFrameStarted = False \<rparr>
     = Inl (AssertionFailed ''Cannot get frame index when frame not in progress'')"
  using renderer_accessors_need_frame [of
      "\<lparr> commandBuffers = [10, 11], currentImageIndex = 0, currentFrameIndex = 1,
         isFrameStarted = True \<rparr>"]
    renderer_accessors_need_frame [of
      "\<lparr> commandBuffers = [10, 11], currentImageIndex = 0, currentFrameIndex = 1,
         isFrameStarted = False \<rparr>"]
  by simp

section \<open>Comparing the formats of two swap chains\<close>

text \<open>
  C7. \<open>compareSwapFormats\<close> holds of two chains exactly when their image formats are
  equal and their depth formats are equal; changing the extent or the images of either
  chain does not change its answer.
\<close>

theorem compareSwapFormats_iff_formats:
  "(compareSwapFormats a b \<longleftrightarrow>
      swapChainImageFormat a = swapChainImageFormat b \<and>
      swapChainDepthFormat a = swapChainDepthFormat b) \<and>
   compareSwapFormats (a\<lparr>swapChainExtent := ea, swapChainImages := ia\<rparr>)
                      (b\<lparr>swapChainExtent := eb, swapChainImages := ib\<rparr>)
     = compareSwapFormats a b"
  by (auto simp: compareSwapFormats_def)

text \<open>A chain resized to 1024 by 768 with two images stays compatible; another depth format does not.\<close>

theorem compareSwapFormats_iff_formats_witness:
  "compareSwapFormats fresh_chain
     (fresh_chain\<lparr>swapChainExtent := \<lparr> width = 1024, height = 768 \<rparr>, swapChainImages := [4, 5]\<rparr>) \<and>
   \<not> compareSwapFormats fresh_chain (fresh_chain\<lparr>swapChainDepthFormat := 124\<rparr>)"
  using compareSwapFormats_iff_formats [where a = fresh_chain and b = fresh_chain
      and ea = "swapChainExtent fresh_chain" and ia = "swapChainImages fresh_chain"
      and eb = "\<lparr> width = 1024, height = 768 \<rparr>" and ib = "[4, 5]"]
    compareSwapFormats_iff_formats [where a = fresh_chain
      and b = "fresh_chain\<lparr>swapChainDepthFormat := 124\<rparr>"]
  by (simp add: fresh_chain_def)

section \<open>The buffer scenario of the specification\<close>

text \<open>
  C8. A buffer constructed with \<open>instanceSize = 68\<close>, \<open>instanceCount = 3\<close> and
  \<open>minOffsetAlignment = 64\<close> has \<open>alignmentSize = 128\<close> and \<open>bufferSize = 384\<close>, and once
  mapped, \<open>writeToIndex(data, 1)\<close> copies the first 68 bytes of \<open>data\<close> to the bytes
  128 up to 196 (excluded) of the mapped region and leaves every other byte as it was.
\<close>

theorem scenario_68_64_3:
  assumes "LveBuffer_ctor createBuffer 68 3 usage properties 64 = Inr b"
  shows "alignmentSize b = 128 \<and> bufferSize b = 384 \<and>
         writeToIndex (b\<lparr>mapped := Some m\<rparr>) data 1
           = Inr (b\<lparr>mapped := Some (memcpy m 128 data 68)\<rparr>) \<and>
         (\<forall>a. memcpy m 128 data 68 a = (if a \<in> {128..<196} then data (a - 128) else m a))"
proof -
  from assms have al: "alignmentSize b = 128" and bs: "bufferSize b = 384"
    and isz: "instanceSize b = 68"
    by (auto simp: LveBuffer_ctor_def Let_def getAlignment_68_64 split: sum.splits prod.splits)
  have "(68::64 word) \<noteq> VK_WHOLE_SIZE" by (simp add: VK_WHOLE_SIZE_def)
  then have "writeToIndex (b\<lparr>mapped := Some m\<rparr>) data 1
           = Inr (b\<lparr>mapped := Some (memcpy m 128 data 68)\<rparr>)"
    by (simp add: writeToIndex_def writeToBuffer_def al isz)
  moreover have "\<forall>a. memcpy m 128 data 68 a = (if a \<in> {128..<196} then data (a - 128) else m a)"
    by (simp add: memcpy_def)
  ultimately show ?thesis using al bs by simp
qed

theorem scenario_68_64_3_witness:
  "LveBuffer_ctor granting_device 68 3 0 0 64 = Inr buffer_68_64_3 \<and>
   alignmentSize buffer_68_64_3 = 128 \<and> bufferSize buffer_68_64_3 = 384 \<and>
   (case writeToIndex (buffer_68_64_3\<lparr>mapped := Some zero_bytes\<rparr>) ramp_bytes 1 of
      Inr b' \<Rightarrow> map_option (\<lambda>m'. map m' [127, 128, 195, 196]) (mapped b') = Some [0, 1, 68, 0]
    | Inl e \<Rightarrow> False)"
  using scenario_68_64_3 [OF LveBuffer_ctor_68_64_3, of zero_bytes ramp_bytes]
    LveBuffer_ctor_68_64_3
  by (simp add: zero_bytes_def ramp_bytes_def)

section \<open>The accessor for the alignment size\<close>

text \<open>
  C9. \<open>getAlignmentSize\<close> returns \<open>instanceSize\<close>, not \<open>alignmentSize\<close>. The indexed
  operations place index \<open>i\<close> at \<open>i * alignmentSize\<close>, so index 1 lies at \<open>alignmentSize\<close>;
  whenever \<open>alignmentSize\<close> exceeds \<open>instanceSize\<close>, what \<open>getAlignmentSize\<close> returns
  differs from that stride.
\<close>

theorem getAlignmentSize_returns_instanceSize:
  "getAlignmentSize b = instanceSize b \<and>
   (instanceSize b < alignmentSize b \<longrightarrow> getAlignmentSize b \<noteq> alignmentSize b) \<and>
   writeToIndex b data index
     = writeToBuffer b data (instanceSize b) (scast index * alignmentSize b) \<and>
   snd (flushIndex vk b index tr)
     = tr @ [VkFlushMappedMemoryRanges
               \<lparr> mr_memory = memory b, mr_offset = scast index * alignmentSize b,
                 mr_size = alignmentSize b \<rparr>] \<and>
   dbi_offset (descriptorInfoForIndex b index) = scast index * alignmentSize b \<and>
   snd (invalidateIndex vk b index tr)
     = tr @ [VkInvalidateMappedMemoryRanges
               \<lparr> mr_memory = memory b, mr_offset = scast index * alignmentSize b,
                 mr_size = alignmentSize b \<rparr>] \<and>
   dbi_offset (descriptorInfoForIndex b 1) = alignmentSize b"
  by (auto simp: getAlignmentSize_def writeToIndex_def flushIndex_trace invalidateIndex_trace
      descriptorInfoForIndex_eq)

theorem getAlignmentSize_returns_instanceSize_witness:
  "getAlignmentSize buffer_68_64_3 = 68 \<and>
   dbi_offset (descriptorInfoForIndex buffer_68_64_3 1) = 128 \<and>
   getAlignmentSize buffer_68_64_3 \<noteq> alignmentSize buffer_68_64_3"
  using getAlignmentSize_returns_instanceSize [of buffer_68_64_3 zero_bytes 1
      succeeding_driver "[]"]
  by (simp add: buffer_68_64_3_def)

section \<open>Writing the whole buffer ignores the offset\<close>

text \<open>
  C10. On a mapped buffer, \<open>writeToBuffer\<close> with \<open>size = VK_WHOLE_SIZE\<close> copies
  \<open>bufferSize\<close> bytes of the data to the start of the mapped region, whatever the offset:
  the result is the one for offset 0. With any other size it copies \<open>size\<close> bytes to
  \<open>offset\<close>.
\<close>

theorem writeToBuffer_whole_size_ignores_offset:
  assumes "mapped b = Some m"
  shows "writeToBuffer b data VK_WHOLE_SIZE offset
           = Inr (b\<lparr>mapped := Some (memcpy m 0 data (unat (bufferSize b)))\<rparr>) \<and>
         writeToBuffer b data VK_WHOLE_SIZE offset = writeToBuffer b data VK_WHOLE_SIZE 0 \<and>
         (\<forall>a. memcpy m 0 data (unat (bufferSize b)) a
                = (if a < unat (bufferSize b) then data a else m a)) \<and>
         (size' \<noteq> VK_WHOLE_SIZE \<longrightarrow>
            writeToBuffer b data size' offset
              = Inr (b\<lparr>mapped := Some (memcpy m (unat offset) data (unat size'))\<rparr>))"
  using assms by (simp add: writeToBuffer_def memcpy_def)

text \<open>
  On a four-byte buffer: the whole-size write with offset 2 fills the bytes 0 to 3; the
  four-byte write with offset 2 fills the bytes 2 to 5.
\<close>

theorem writeToBuffer_whole_size_ignores_offset_witness:
  "(case writeToBuffer \<lparr> mapped = Some zero_bytes, buffer = 1, memory = 2, bufferSize = 4,
       instanceCount = 1, instanceSize = 4, alignmentSize = 4, usageFlags = 0,
       memoryPropertyFlags = 0 \<rparr> ramp_bytes VK_WHOLE_SIZE 2 of
      Inr b' \<Rightarrow> map_option (\<lambda>m'. map m' [0, 1, 2, 3, 4, 5]) (mapped b') = Some [1, 2, 3, 4, 0, 0]
    | Inl e \<Rightarrow> False) \<and>
   (case writeToBuffer \<lparr> mapped = Some zero_bytes, buffer = 1, memory = 2, bufferSize = 4,
       instanceCount = 1, instanceSize = 4, alignmentSize = 4, usageFlags = 0,
       memoryPropertyFlags = 0 \<rparr> ramp_bytes 4 2 of
      Inr b' \<Rightarrow> map_option (\<lambda>m'. map m' [0, 1, 2, 3, 4, 5, 6]) (mapped b') = Some [0, 0, 1, 2, 3, 4, 0]
    | Inl e \<Rightarrow> False)"
  using writeToBuffer_whole_size_ignores_offset [of
      "\<lparr> mapped = Some zero_bytes, buffer = 1, memory = 2, bufferSize = 4, instanceCount = 1,
         instanceSize = 4, alignmentSize = 4, usageFlags = 0, memoryPropertyFlags = 0 \<rparr>"
      zero_bytes ramp_bytes 2 4]
  by (simp add: VK_WHOLE_SIZE_def memcpy_def zero_bytes_def ramp_bytes_def)

end
